theory Spec2Isabelle
  imports Complex_Main "HOL-Library.Sublist"
begin

section \<open>The pipeline driver \<open>main.py\<close>\<close>

text \<open>
  The driver \<open>go\<close> of \<open>src/main.py\<close> reads a configuration tree, sets two environment
  variables, and calls \<open>mlflow.run\<close> once for every active step, in the order of the
  \<open>if\<close> blocks of the source. Everything it does beyond reading the configuration is an
  effect on the outside world; the model records these effects as a trace of events and
  returns the trace together with the exception that ended the execution, if any.
\<close>

subsection \<open>Configuration values\<close>

text \<open>
  A node of the configuration (an OmegaConf \<open>DictConfig\<close> loaded from YAML): a string, a
  mapping from keys to nodes, or any other value (a number, a boolean, null, a list), whose
  type \<open>'a\<close> is left open since the driver passes such values on unchanged. A mapping is
  an association list; lookup takes the first binding of a key.
\<close>

datatype 'a cval = VStr string | VOther 'a | VDict "(string \<times> 'a cval) list"

text \<open>The exceptions an execution of \<open>go\<close> can end with.\<close>

datatype error =
    KeyError          \<comment> \<open>a key missing from a mapping\<close>
  | TypeError         \<comment> \<open>subscripting a non-mapping, or a non-string in \<open>os.environ\<close>\<close>
  | AttributeError    \<comment> \<open>\<open>.split\<close> or \<open>.items\<close> on a value that has none\<close>
  | ValueError        \<comment> \<open>a NUL character in an environment value\<close>
  | ExternalError     \<comment> \<open>raised inside a library call that acts on the outside world\<close>

text \<open>
  \<open>node[key]\<close>. Hydra hands \<open>go\<close> a configuration in struct mode, where a missing key
  raises (a subclass of) \<open>KeyError\<close>.
\<close>

fun getitem :: "'a cval \<Rightarrow> string \<Rightarrow> error + 'a cval" where
  "getitem (VDict kvs) key = (case map_of kvs key of None \<Rightarrow> Inl KeyError | Some v \<Rightarrow> Inr v)"
| "getitem (VStr s) key = Inl TypeError"
| "getitem (VOther x) key = Inl TypeError"

text \<open>\<open>config[section][key]\<close>, the only way the source reads the configuration.\<close>

definition getitem2 :: "'a cval \<Rightarrow> string \<Rightarrow> string \<Rightarrow> error + 'a cval" where
  "getitem2 config section key =
     (case getitem config section of Inl e \<Rightarrow> Inl e | Inr node \<Rightarrow> getitem node key)"

text \<open>\<open>node.items()\<close>, as used on \<open>config["modeling"]["random_forest"]\<close>.\<close>

fun items :: "'a cval \<Rightarrow> error + (string \<times> 'a cval) list" where
  "items (VDict kvs) = Inr kvs"
| "items (VStr s) = Inl AttributeError"
| "items (VOther x) = Inl AttributeError"

subsection \<open>Strings and paths\<close>

text \<open>Python's \<open>s.split(",")\<close>: no trimming, empty fields kept, never an empty list.\<close>

fun split_comma :: "string \<Rightarrow> string list" where
  "split_comma [] = [[]]"
| "split_comma (c # cs) =
     (if c = CHR '','' then [] # split_comma cs
      else (case split_comma cs of
              [] \<Rightarrow> [[c]]
            | w # ws \<Rightarrow> (c # w) # ws))"

text \<open>
  \<open>os.path.join\<close> on a POSIX system: a component that starts with a slash replaces
  what came before it, otherwise it is appended after exactly one separating slash.
\<close>

definition join2 :: "string \<Rightarrow> string \<Rightarrow> string" where
  "join2 path b =
     (if b \<noteq> [] \<and> hd b = CHR ''/'' then b
      else if path = [] \<or> last path = CHR ''/'' then path @ b
      else path @ ''/'' @ b)"

definition path_join :: "string \<Rightarrow> string list \<Rightarrow> string" where
  "path_join a ps = foldl join2 a ps"

subsection \<open>Effects and the outside world\<close>

text \<open>The three arguments of one call \<open>mlflow.run(uri, entry_point, parameters=...)\<close>.\<close>

record 'a run_call =
  target :: string
  entry_point :: string
  parameters :: "(string \<times> 'a cval) list"

text \<open>
  The effects of the driver, in the order they happen. \<open>Run name call\<close> is a call of
  \<open>mlflow.run\<close>; \<open>name\<close> is the string literal of the \<open>if "name" in active_steps\<close> that
  guards the call in the source (it is not passed to \<open>mlflow.run\<close>).
\<close>

datatype 'a event =
    SetEnv string string                          \<comment> \<open>\<open>os.environ[k] = v\<close>\<close>
  | TmpDirCreate                                  \<comment> \<open>entering \<open>tempfile.TemporaryDirectory()\<close>\<close>
  | TmpDirCleanup                                 \<comment> \<open>leaving it\<close>
  | FileOpen string                               \<comment> \<open>\<open>open(path, "w+")\<close>\<close>
  | JsonDump string "(string \<times> 'a cval) list"     \<comment> \<open>\<open>json.dump(dict(...), fp)\<close>\<close>
  | Run string "'a run_call"

text \<open>
  What the driver takes from its execution environment rather than from the
  configuration: the directory \<open>hydra.utils.get_original_cwd()\<close> returns, the value of
  \<open>os.path.abspath("rf_config.json")\<close> in the directory Hydra runs the driver in,
  Python's \<open>str\<close> on values that are not strings (for the f-strings), and whether a
  library call that acts on the outside world raises, given the effects so far.
\<close>

record 'a world =
  original_cwd :: string
  rf_config_abspath :: string
  py_str :: "'a cval \<Rightarrow> string"
  raises :: "'a event list \<Rightarrow> 'a event \<Rightarrow> bool"

text \<open>
  The result of (a part of) an execution: the trace of effects up to its end, and the
  exception that ended it, or \<open>None\<close> when it ran to its end.
\<close>

type_synonym 'a outcome = "'a event list \<times> error option"

text \<open>A library call: it is recorded in the trace, and the world decides whether it raises.\<close>

definition perform :: "'a world \<Rightarrow> 'a event list \<Rightarrow> 'a event \<Rightarrow> 'a outcome" where
  "perform w t ev = (t @ [ev], if raises w t ev then Some ExternalError else None)"

text \<open>Sequencing: what follows runs only when what came before raised nothing.\<close>

definition and_then :: "'a outcome \<Rightarrow> ('a event list \<Rightarrow> 'a outcome) \<Rightarrow> 'a outcome" where
  "and_then r f = (case r of (t, None) \<Rightarrow> f t | (t, Some e) \<Rightarrow> (t, Some e))"

text \<open>Evaluating an expression that may raise, at trace \<open>t\<close>, and going on with its value.\<close>

definition lookup_then :: "error + 'b \<Rightarrow> 'a event list \<Rightarrow> ('b \<Rightarrow> 'a outcome) \<Rightarrow> 'a outcome" where
  "lookup_then r t f = (case r of Inl e \<Rightarrow> (t, Some e) | Inr v \<Rightarrow> f v)"

text \<open>
  \<open>os.environ[k] = v\<close>: only a string is accepted, and a string holding a NUL character
  is refused by \<open>putenv\<close>.
\<close>

definition environ_set :: "'a event list \<Rightarrow> string \<Rightarrow> 'a cval \<Rightarrow> 'a outcome" where
  "environ_set t k v =
     (case v of
        VStr s \<Rightarrow> if CHR 0x00 \<in> set s then (t, Some ValueError) else (t @ [SetEnv k s], None)
      | VOther x \<Rightarrow> (t, Some TypeError)
      | VDict kvs \<Rightarrow> (t, Some TypeError))"

text \<open>The value an f-string puts in place of \<open>{v}\<close>.\<close>

definition fmt :: "'a world \<Rightarrow> 'a cval \<Rightarrow> string" where
  "fmt w v = (case v of VStr s \<Rightarrow> s | VOther x \<Rightarrow> py_str w v | VDict kvs \<Rightarrow> py_str w v)"

definition mlflow_run :: "'a world \<Rightarrow> 'a event list \<Rightarrow> string \<Rightarrow> 'a run_call \<Rightarrow> 'a outcome" where
  "mlflow_run w t name call = perform w t (Run name call)"

subsection \<open>The step list and the six blocks\<close>

text \<open>The module-level list \<open>_steps\<close> (lines 18 to 27).\<close>

definition steps_list :: "string list" where
  "steps_list =
     [''download'', ''basic_cleaning'', ''data_check'', ''data_split'', ''train_random_forest'']"

text \<open>\<open>steps_par.split(",") if steps_par != "all" else _steps\<close> (line 39).\<close>

definition active_steps :: "'a cval \<Rightarrow> error + string list" where
  "active_steps steps_par =
     (if steps_par \<noteq> VStr ''all''
      then (case steps_par of
              VStr s \<Rightarrow> Inr (split_comma s)
            | VOther x \<Rightarrow> Inl AttributeError
            | VDict kvs \<Rightarrow> Inl AttributeError)
      else Inr steps_list)"

text \<open>The arguments of the six calls of \<open>mlflow.run\<close>, from the values read for them.\<close>

definition download_call :: "'a world \<Rightarrow> 'a cval \<Rightarrow> 'a cval \<Rightarrow> 'a run_call" where
  "download_call w repo sample =
     \<lparr>target = fmt w repo @ ''/get_data'',
      entry_point = ''main'',
      parameters =
        [(''sample'', sample),
         (''artifact_name'', VStr ''sample.csv''),
         (''artifact_type'', VStr ''raw_data''),
         (''artifact_description'', VStr ''Raw file as downloaded'')]\<rparr>"

definition basic_cleaning_call :: "'a world \<Rightarrow> 'a cval \<Rightarrow> 'a cval \<Rightarrow> 'a run_call" where
  "basic_cleaning_call w min_price max_price =
     \<lparr>target = path_join (original_cwd w) [''src'', ''basic_cleaning''],
      entry_point = ''main'',
      parameters =
        [(''input_artifact'', VStr ''sample.csv:latest''),
         (''output_artifact'', VStr ''clean_sample.csv''),
         (''output_type'', VStr ''clean_sample''),
         (''output_description'', VStr ''Data with outliers and null values removed''),
         (''min_price'', min_price),
         (''max_price'', max_price)]\<rparr>"

definition data_check_call :: "'a world \<Rightarrow> 'a cval \<Rightarrow> 'a cval \<Rightarrow> 'a cval \<Rightarrow> 'a run_call" where
  "data_check_call w kl_threshold min_price max_price =
     \<lparr>target = path_join (original_cwd w) [''src'', ''data_check''],
      entry_point = ''main'',
      parameters =
        [(''csv'', VStr ''clean_sample.csv:latest''),
         (''ref'', VStr ''clean_sample.csv:reference''),
         (''kl_threshold'', kl_threshold),
         (''min_price'', min_price),
         (''max_price'', max_price)]\<rparr>"

definition data_split_call ::
  "'a world \<Rightarrow> 'a cval \<Rightarrow> 'a cval \<Rightarrow> 'a cval \<Rightarrow> 'a cval \<Rightarrow> 'a run_call" where
  "data_split_call w repo test_size random_seed stratify_by =
     \<lparr>target = fmt w repo @ ''/train_val_test_split'',
      entry_point = ''main'',
      parameters =
        [(''input'', VStr ''clean_sample.csv:latest''),
         (''test_size'', test_size),
         (''random_seed'', random_seed),
         (''stratify_by'', stratify_by)]\<rparr>"

definition train_random_forest_call ::
  "'a world \<Rightarrow> 'a cval \<Rightarrow> 'a cval \<Rightarrow> 'a cval \<Rightarrow> 'a cval \<Rightarrow> 'a run_call" where
  "train_random_forest_call w val_size random_seed stratify_by max_tfidf_features =
     \<lparr>target = path_join (original_cwd w) [''src'', ''train_random_forest''],
      entry_point = ''main'',
      parameters =
        [(''trainval_artifact'', VStr ''trainval_data.csv:latest''),
         (''val_size'', val_size),
         (''random_seed'', random_seed),
         (''stratify_by'', stratify_by),
         (''rf_config'', VStr (rf_config_abspath w)),
         (''max_tfidf_features'', max_tfidf_features),
         (''output_artifact'', VStr ''random_forest_export'')]\<rparr>"

definition test_regression_model_call :: "'a world \<Rightarrow> 'a cval \<Rightarrow> 'a run_call" where
  "test_regression_model_call w repo =
     \<lparr>target = fmt w repo @ ''/test_regression_model'',
      entry_point = ''main'',
      parameters =
        [(''mlflow_model'', VStr ''random_forest_export:prod''),
         (''test_dataset'', VStr ''test_data.csv:latest'')]\<rparr>"

text \<open>
  The bodies of the six \<open>if\<close> blocks (lines 54 to 112). The arguments of a call are
  evaluated from left to right, so the first missing key ends the block before the call.
\<close>

definition download_step :: "'a world \<Rightarrow> 'a cval \<Rightarrow> 'a event list \<Rightarrow> 'a outcome" where
  "download_step w config t =
     lookup_then (getitem2 config ''main'' ''components_repository'') t (\<lambda>repo.
     lookup_then (getitem2 config ''etl'' ''sample'') t (\<lambda>sample.
     mlflow_run w t ''download'' (download_call w repo sample)))"

definition basic_cleaning_step :: "'a world \<Rightarrow> 'a cval \<Rightarrow> 'a event list \<Rightarrow> 'a outcome" where
  "basic_cleaning_step w config t =
     lookup_then (getitem2 config ''etl'' ''min_price'') t (\<lambda>min_price.
     lookup_then (getitem2 config ''etl'' ''max_price'') t (\<lambda>max_price.
     mlflow_run w t ''basic_cleaning'' (basic_cleaning_call w min_price max_price)))"

definition data_check_step :: "'a world \<Rightarrow> 'a cval \<Rightarrow> 'a event list \<Rightarrow> 'a outcome" where
  "data_check_step w config t =
     lookup_then (getitem2 config ''data_check'' ''kl_threshold'') t (\<lambda>kl_threshold.
     lookup_then (getitem2 config ''etl'' ''min_price'') t (\<lambda>min_price.
     lookup_then (getitem2 config ''etl'' ''max_price'') t (\<lambda>max_price.
     mlflow_run w t ''data_check'' (data_check_call w kl_threshold min_price max_price))))"

definition data_split_step :: "'a world \<Rightarrow> 'a cval \<Rightarrow> 'a event list \<Rightarrow> 'a outcome" where
  "data_split_step w config t =
     lookup_then (getitem2 config ''main'' ''components_repository'') t (\<lambda>repo.
     lookup_then (getitem2 config ''modeling'' ''test_size'') t (\<lambda>test_size.
     lookup_then (getitem2 config ''modeling'' ''random_seed'') t (\<lambda>random_seed.
     lookup_then (getitem2 config ''modeling'' ''stratify_by'') t (\<lambda>stratify_by.
     mlflow_run w t ''data_split''
       (data_split_call w repo test_size random_seed stratify_by)))))"

text \<open>
  The file is opened before the random forest section is read, and the section is
  written to it before the arguments of the call are evaluated (lines 96 to 107).
\<close>

definition train_random_forest_step ::
  "'a world \<Rightarrow> 'a cval \<Rightarrow> 'a event list \<Rightarrow> 'a outcome" where
  "train_random_forest_step w config t =
     and_then (perform w t (FileOpen (rf_config_abspath w))) (\<lambda>t.
     lookup_then (getitem2 config ''modeling'' ''random_forest'') t (\<lambda>random_forest.
     lookup_then (items random_forest) t (\<lambda>kvs.
     and_then (perform w t (JsonDump (rf_config_abspath w) kvs)) (\<lambda>t.
     lookup_then (getitem2 config ''modeling'' ''val_size'') t (\<lambda>val_size.
     lookup_then (getitem2 config ''modeling'' ''random_seed'') t (\<lambda>random_seed.
     lookup_then (getitem2 config ''modeling'' ''stratify_by'') t (\<lambda>stratify_by.
     lookup_then (getitem2 config ''modeling'' ''max_tfidf_features'') t (\<lambda>max_tfidf_features.
     mlflow_run w t ''train_random_forest''
       (train_random_forest_call w val_size random_seed stratify_by max_tfidf_features)))))))))"

definition test_regression_model_step ::
  "'a world \<Rightarrow> 'a cval \<Rightarrow> 'a event list \<Rightarrow> 'a outcome" where
  "test_regression_model_step w config t =
     lookup_then (getitem2 config ''main'' ''components_repository'') t (\<lambda>repo.
     mlflow_run w t ''test_regression_model'' (test_regression_model_call w repo))"

text \<open>The six guarded blocks in the order of the source: the guard's literal and the body.\<close>

definition blocks ::
  "'a world \<Rightarrow> 'a cval \<Rightarrow> (string \<times> ('a event list \<Rightarrow> 'a outcome)) list" where
  "blocks w config =
     [(''download'', download_step w config),
      (''basic_cleaning'', basic_cleaning_step w config),
      (''data_check'', data_check_step w config),
      (''data_split'', data_split_step w config),
      (''train_random_forest'', train_random_forest_step w config),
      (''test_regression_model'', test_regression_model_step w config)]"

text \<open>
  A sequence of statements \<open>if name in active_steps: body\<close>: a body runs when its name is
  a member of the list, and an exception in a body ends the sequence.
\<close>

fun run_blocks ::
  "string list \<Rightarrow> (string \<times> ('a event list \<Rightarrow> 'a outcome)) list \<Rightarrow> 'a event list \<Rightarrow> 'a outcome"
  where
  "run_blocks active [] t = (t, None)"
| "run_blocks active ((name, body) # rest) t =
     (if name \<in> set active
      then and_then (body t) (run_blocks active rest)
      else run_blocks active rest t)"

text \<open>
  Leaving the \<open>with tempfile.TemporaryDirectory()\<close> block: the directory is removed
  whether or not the body raised, and an exception of the removal replaces the body's.
  The directory is only created and removed: \<open>tmp_dir\<close> is not used in the body and the
  driver does not change its working directory, though the comment on line 41 speaks of
  moving there.
\<close>

definition with_cleanup :: "'a world \<Rightarrow> 'a outcome \<Rightarrow> 'a outcome" where
  "with_cleanup w r =
     (case r of (t, e) \<Rightarrow>
        (case perform w t TmpDirCleanup of
           (t', None) \<Rightarrow> (t', e)
         | (t', Some e') \<Rightarrow> (t', Some e')))"

subsection \<open>The driver\<close>

text \<open>\<open>go\<close> (lines 32 to 112), started with an empty trace.\<close>

definition go :: "'a world \<Rightarrow> 'a cval \<Rightarrow> 'a outcome" where
  "go w config =
     and_then (lookup_then (getitem2 config ''main'' ''project_name'') []
                 (environ_set [] ''WANDB_PROJECT'')) (\<lambda>t.
     and_then (lookup_then (getitem2 config ''main'' ''experiment_name'') t
                 (environ_set t ''WANDB_RUN_GROUP'')) (\<lambda>t.
     lookup_then (getitem2 config ''main'' ''steps'') t (\<lambda>steps_par.
     lookup_then (active_steps steps_par) t (\<lambda>active.
     and_then (perform w t TmpDirCreate) (\<lambda>t.
     with_cleanup w (run_blocks active (blocks w config) t))))))"

subsection \<open>Observations of an execution\<close>

text \<open>The calls of \<open>mlflow.run\<close> in a trace, each with the name of its guard, in order.\<close>


fun runs_of :: "'a event list \<Rightarrow> (string \<times> 'a run_call) list" where
  "runs_of [] = []"
| "runs_of (Run name call # t) = (name, call) # runs_of t"
| "runs_of (ev # t) = runs_of t"

text \<open>The assignments to \<open>os.environ\<close> in a trace, in order.\<close>

fun env_writes :: "'a event list \<Rightarrow> (string \<times> string) list" where
  "env_writes [] = []"
| "env_writes (SetEnv k v # t) = (k, v) # env_writes t"
| "env_writes (ev # t) = env_writes t"

text \<open>The runs an execution dispatched, and the names of their steps.\<close>

definition dispatched :: "'a outcome \<Rightarrow> (string \<times> 'a run_call) list" where
  "dispatched r = runs_of (fst r)"

definition dispatched_steps :: "'a outcome \<Rightarrow> string list" where
  "dispatched_steps r = map fst (dispatched r)"

text \<open>The six step names in the order of their \<open>if\<close> blocks in the source.\<close>

definition pipeline_order :: "string list" where
  "pipeline_order =
     [''download'', ''basic_cleaning'', ''data_check'', ''data_split'', ''train_random_forest'',
      ''test_regression_model'']"

text \<open>
  A call is built by the block \<open>name\<close>: its arguments are those of the block's call of
  \<open>mlflow.run\<close>, for values the block read from the configuration.
\<close>

definition built_by :: "'a world \<Rightarrow> 'a cval \<Rightarrow> string \<Rightarrow> 'a run_call \<Rightarrow> bool" where
  "built_by w config name call \<longleftrightarrow>
     (name = ''download'' \<and>
        (\<exists>repo sample.
           getitem2 config ''main'' ''components_repository'' = Inr repo \<and>
           getitem2 config ''etl'' ''sample'' = Inr sample \<and>
           call = download_call w repo sample)) \<or>
     (name = ''basic_cleaning'' \<and>
        (\<exists>min_price max_price.
           getitem2 config ''etl'' ''min_price'' = Inr min_price \<and>
           getitem2 config ''etl'' ''max_price'' = Inr max_price \<and>
           call = basic_cleaning_call w min_price max_price)) \<or>
     (name = ''data_check'' \<and>
        (\<exists>kl_threshold min_price max_price.
           getitem2 config ''data_check'' ''kl_threshold'' = Inr kl_threshold \<and>
           getitem2 config ''etl'' ''min_price'' = Inr min_price \<and>
           getitem2 config ''etl'' ''max_price'' = Inr max_price \<and>
           call = data_check_call w kl_threshold min_price max_price)) \<or>
     (name = ''data_split'' \<and>
        (\<exists>repo test_size random_seed stratify_by.
           getitem2 config ''main'' ''components_repository'' = Inr repo \<and>
           getitem2 config ''modeling'' ''test_size'' = Inr test_size \<and>
           getitem2 config ''modeling'' ''random_seed'' = Inr random_seed \<and>
           getitem2 config ''modeling'' ''stratify_by'' = Inr stratify_by \<and>
           call = data_split_call w repo test_size random_seed stratify_by)) \<or>
     (name = ''train_random_forest'' \<and>
        (\<exists>val_size random_seed stratify_by max_tfidf_features.
           getitem2 config ''modeling'' ''val_size'' = Inr val_size \<and>
           getitem2 config ''modeling'' ''random_seed'' = Inr random_seed \<and>
           getitem2 config ''modeling'' ''stratify_by'' = Inr stratify_by \<and>
           getitem2 config ''modeling'' ''max_tfidf_features'' = Inr max_tfidf_features \<and>
           call = train_random_forest_call w val_size random_seed stratify_by
                    max_tfidf_features)) \<or>
     (name = ''test_regression_model'' \<and>
        (\<exists>repo.
           getitem2 config ''main'' ''components_repository'' = Inr repo \<and>
           call = test_regression_model_call w repo))"

text \<open>
  What every block does to a trace: it appends events, none of them an assignment to the
  environment, and either raises before its call of \<open>mlflow.run\<close> or makes exactly
  that one call, with arguments that satisfy \<open>Q\<close>.
\<close>

definition block_spec ::
  "(string \<Rightarrow> 'a run_call \<Rightarrow> bool) \<Rightarrow> string \<Rightarrow> ('a event list \<Rightarrow> 'a outcome) \<Rightarrow> bool" where
  "block_spec Q name body \<longleftrightarrow>
     (\<forall>t. \<exists>evs. fst (body t) = t @ evs \<and> env_writes evs = [] \<and>
        ((runs_of evs = [] \<and> snd (body t) \<noteq> None) \<or>
         (\<exists>call. runs_of evs = [(name, call)] \<and> Q name call)))"

text \<open>
  The trace of an execution that reached the blocks: both variables set and the
  temporary directory entered.
\<close>

definition prelude :: "string \<Rightarrow> string \<Rightarrow> 'a event list" where
  "prelude p g = [SetEnv ''WANDB_PROJECT'' p, SetEnv ''WANDB_RUN_GROUP'' g, TmpDirCreate]"

subsection \<open>Notions used to state the properties\<close>

text \<open>
  Two configurations that differ at most in \<open>config["main"]["steps"]\<close>: every other
  read \<open>config[section][key]\<close> gives the same result in both.
\<close>

definition same_except_steps :: "'a cval \<Rightarrow> 'a cval \<Rightarrow> bool" where
  "same_except_steps config config' \<longleftrightarrow>
     (\<forall>section key. (section, key) \<noteq> (''main'', ''steps'') \<longrightarrow>
        getitem2 config section key = getitem2 config' section key)"










text \<open>The same execution environment in which no library call raises.\<close>

definition ideal :: "'a world \<Rightarrow> 'a world" where
  "ideal w = w\<lparr>raises := (\<lambda>t ev. False)\<rparr>"


subsection \<open>Concrete inputs\<close>

text \<open>
  A complete configuration with the given \<open>steps\<close> string. Numbers are the values that
  are not strings here.
\<close>

definition example_config :: "string \<Rightarrow> rat cval" where
  "example_config s = VDict
     [(''main'', VDict
         [(''components_repository'', VStr ''https://example.org/repo#components''),
          (''project_name'', VStr ''nyc_airbnb''),
          (''experiment_name'', VStr ''development''),
          (''steps'', VStr s)]),
      (''etl'', VDict
         [(''sample'', VStr ''sample1.csv''),
          (''min_price'', VOther 10),
          (''max_price'', VOther 350)]),
      (''data_check'', VDict [(''kl_threshold'', VOther (1 / 5))]),
      (''modeling'', VDict
         [(''test_size'', VOther (1 / 5)),
          (''val_size'', VOther (1 / 5)),
          (''random_seed'', VOther 42),
          (''stratify_by'', VStr ''neighbourhood_group''),
          (''max_tfidf_features'', VOther 5),
          (''random_forest'', VDict [(''n_estimators'', VOther 100)])])]"

text \<open>The project checked out in \<open>/proj\<close>, every library call returning.\<close>

definition example_world :: "rat world" where
  "example_world =
     \<lparr>original_cwd = ''/proj'',
      rf_config_abspath = ''/proj/outputs/rf_config.json'',
      py_str = (\<lambda>v. ''?''),
      raises = (\<lambda>t ev. False)\<rparr>"


text \<open>The first project again, with every call of \<open>mlflow.run\<close> raising.\<close>

fun is_run :: "'a event \<Rightarrow> bool" where
  "is_run (Run name call) = True"
| "is_run ev = False"

definition example_world_failing :: "rat world" where
  "example_world_failing =
     \<lparr>original_cwd = ''/proj'',
      rf_config_abspath = ''/proj/outputs/rf_config.json'',
      py_str = (\<lambda>v. ''?''),
      raises = (\<lambda>t ev. is_run ev)\<rparr>"

text \<open>
  The complete configuration again, with \<open>steps: all\<close> and a number for
  \<open>project_name\<close>, as YAML reads \<open>project_name: 2024\<close>.
\<close>

definition numeric_project_config :: "rat cval" where
  "numeric_project_config = VDict
     [(''main'', VDict
         [(''components_repository'', VStr ''https://example.org/repo#components''),
          (''project_name'', VOther 2024),
          (''experiment_name'', VStr ''development''),
          (''steps'', VStr ''all'')]),
      (''etl'', VDict
         [(''sample'', VStr ''sample1.csv''),
          (''min_price'', VOther 10),
          (''max_price'', VOther 350)]),
      (''data_check'', VDict [(''kl_threshold'', VOther (1 / 5))]),
      (''modeling'', VDict
         [(''test_size'', VOther (1 / 5)),
          (''val_size'', VOther (1 / 5)),
          (''random_seed'', VOther 42),
          (''stratify_by'', VStr ''neighbourhood_group''),
          (''max_tfidf_features'', VOther 5),
          (''random_forest'', VDict [(''n_estimators'', VOther 100)])])]"

section \<open>Properties of the model\<close>

subsection \<open>The shape of an execution\<close>

lemma runs_of_append [simp]: "runs_of (t @ u) = runs_of t @ runs_of u"
  by (induction t rule: runs_of.induct) simp_all

lemma env_writes_append [simp]: "env_writes (t @ u) = env_writes t @ env_writes u"
  by (induction t rule: env_writes.induct) simp_all

lemma download_step_spec: "block_spec (built_by w config) ''download'' (download_step w config)"
  unfolding block_spec_def download_step_def lookup_then_def mlflow_run_def perform_def
  by (auto simp: built_by_def split: sum.splits)

lemma basic_cleaning_step_spec:
  "block_spec (built_by w config) ''basic_cleaning'' (basic_cleaning_step w config)"
  unfolding block_spec_def basic_cleaning_step_def lookup_then_def mlflow_run_def perform_def
  by (auto simp: built_by_def split: sum.splits)

lemma data_check_step_spec:
  "block_spec (built_by w config) ''data_check'' (data_check_step w config)"
  unfolding block_spec_def data_check_step_def lookup_then_def mlflow_run_def perform_def
  by (auto simp: built_by_def split: sum.splits)

lemma data_split_step_spec:
  "block_spec (built_by w config) ''data_split'' (data_split_step w config)"
  unfolding block_spec_def data_split_step_def lookup_then_def mlflow_run_def perform_def
  by (auto simp: built_by_def split: sum.splits)

lemma train_random_forest_step_spec:
  "block_spec (built_by w config) ''train_random_forest'' (train_random_forest_step w config)"
  unfolding block_spec_def train_random_forest_step_def lookup_then_def mlflow_run_def
    perform_def and_then_def
  by (auto simp: built_by_def split: sum.splits)

lemma test_regression_model_step_spec:
  "block_spec (built_by w config) ''test_regression_model''
     (test_regression_model_step w config)"
  unfolding block_spec_def test_regression_model_step_def lookup_then_def mlflow_run_def
    perform_def
  by (auto simp: built_by_def split: sum.splits)

lemma blocks_spec: "\<forall>(name, body) \<in> set (blocks w config). block_spec (built_by w config) name body"
  by (simp add: blocks_def download_step_spec basic_cleaning_step_spec data_check_step_spec
      data_split_step_spec train_random_forest_step_spec test_regression_model_step_spec)

lemma blocks_names: "map fst (blocks w config) = pipeline_order"
  by (simp add: blocks_def pipeline_order_def)


lemma run_blocks_shape:
  assumes "\<forall>(name, body) \<in> set bs. block_spec Q name body"
  shows "\<exists>evs. fst (run_blocks active bs t) = t @ evs \<and> env_writes evs = [] \<and>
           prefix (map fst (runs_of evs)) (filter (\<lambda>n. n \<in> set active) (map fst bs)) \<and>
           (snd (run_blocks active bs t) = None \<longrightarrow>
              map fst (runs_of evs) = filter (\<lambda>n. n \<in> set active) (map fst bs)) \<and>
           (\<forall>x \<in> set (runs_of evs). Q (fst x) (snd x))"
  using assms
proof (induction bs arbitrary: t)
  case Nil
  then show ?case by simp
next
  case (Cons b bs)
  obtain name body where b: "b = (name, body)" by (cases b)
  from Cons.prems have rest: "\<forall>(name, body) \<in> set bs. block_spec Q name body" by simp
  show ?case
  proof (cases "name \<in> set active")
    case False
    with Cons.IH [OF rest, of t] b show ?thesis by simp
  next
    case True
    from Cons.prems b have "block_spec Q name body" by simp
    then obtain evs where evs: "fst (body t) = t @ evs" "env_writes evs = []"
      and alt: "(runs_of evs = [] \<and> snd (body t) \<noteq> None) \<or>
                (\<exists>call. runs_of evs = [(name, call)] \<and> Q name call)"
      unfolding block_spec_def by blast
    show ?thesis
    proof (cases "snd (body t)")
      case (Some e)
      with evs have r: "run_blocks active (b # bs) t = (t @ evs, Some e)"
        using True b by (cases "body t") (simp add: and_then_def)
      from alt show ?thesis using True b evs r by auto
    next
      case None
      with alt obtain call where call: "runs_of evs = [(name, call)]" "Q name call" by auto
      from None evs have r: "run_blocks active (b # bs) t = run_blocks active bs (t @ evs)"
        using True b by (cases "body t") (simp add: and_then_def)
      from Cons.IH [OF rest, of "t @ evs"] obtain evs' where
        evs': "fst (run_blocks active bs (t @ evs)) = (t @ evs) @ evs'" "env_writes evs' = []"
          "prefix (map fst (runs_of evs')) (filter (\<lambda>n. n \<in> set active) (map fst bs))"
          "snd (run_blocks active bs (t @ evs)) = None \<longrightarrow>
             map fst (runs_of evs') = filter (\<lambda>n. n \<in> set active) (map fst bs)"
          "\<forall>x \<in> set (runs_of evs'). Q (fst x) (snd x)"
        by auto
      have "fst (run_blocks active (b # bs) t) = t @ (evs @ evs')"
        using r evs' by simp
      moreover have "env_writes (evs @ evs') = []" using evs evs' by simp
      moreover have "prefix (map fst (runs_of (evs @ evs')))
                       (filter (\<lambda>n. n \<in> set active) (map fst (b # bs)))"
        using call evs' True b by simp
      moreover have "snd (run_blocks active (b # bs) t) = None \<longrightarrow>
                       map fst (runs_of (evs @ evs')) =
                       filter (\<lambda>n. n \<in> set active) (map fst (b # bs))"
        using call evs' True b r by simp
      moreover have "\<forall>x \<in> set (runs_of (evs @ evs')). Q (fst x) (snd x)"
        using call evs' by auto
      ultimately show ?thesis by (intro exI [of _ "evs @ evs'"] conjI)
    qed
  qed
qed

lemma go_cases:
  "(snd (go w config) \<noteq> None \<and> runs_of (fst (go w config)) = []) \<or>
   (\<exists>p g steps_par active.
      getitem2 config ''main'' ''project_name'' = Inr (VStr p) \<and>
      getitem2 config ''main'' ''experiment_name'' = Inr (VStr g) \<and>
      getitem2 config ''main'' ''steps'' = Inr steps_par \<and>
      active_steps steps_par = Inr active \<and>
      go w config = with_cleanup w (run_blocks active (blocks w config) (prelude p g)))"
  unfolding go_def and_then_def lookup_then_def environ_set_def perform_def prelude_def
  by (auto split: sum.splits cval.splits)

lemma with_cleanup_fst: "fst (with_cleanup w r) = fst r @ [TmpDirCleanup]"
  by (cases r) (simp add: with_cleanup_def perform_def)

lemma with_cleanup_None: "snd (with_cleanup w r) = None \<Longrightarrow> snd r = None"
  by (cases r) (simp add: with_cleanup_def perform_def split: if_splits)

text \<open>The runs of an execution of \<open>go\<close>, in terms of the active list.\<close>

lemma go_dispatched:
  "(dispatched (go w config) = [] \<and> snd (go w config) \<noteq> None) \<or>
   (\<exists>steps_par active.
      getitem2 config ''main'' ''steps'' = Inr steps_par \<and>
      active_steps steps_par = Inr active \<and>
      prefix (dispatched_steps (go w config)) (filter (\<lambda>n. n \<in> set active) pipeline_order) \<and>
      (snd (go w config) = None \<longrightarrow>
         dispatched_steps (go w config) = filter (\<lambda>n. n \<in> set active) pipeline_order) \<and>
      (\<forall>x \<in> set (dispatched (go w config)). built_by w config (fst x) (snd x)))"
proof -
  from go_cases [of w config] show ?thesis
  proof
    assume "snd (go w config) \<noteq> None \<and> runs_of (fst (go w config)) = []"
    then show ?thesis by (simp add: dispatched_def)
  next
    assume "\<exists>p g steps_par active.
      getitem2 config ''main'' ''project_name'' = Inr (VStr p) \<and>
      getitem2 config ''main'' ''experiment_name'' = Inr (VStr g) \<and>
      getitem2 config ''main'' ''steps'' = Inr steps_par \<and>
      active_steps steps_par = Inr active \<and>
      go w config = with_cleanup w (run_blocks active (blocks w config) (prelude p g))"
    then obtain p g steps_par active where
      st: "getitem2 config ''main'' ''steps'' = Inr steps_par" "active_steps steps_par = Inr active"
      and go: "go w config = with_cleanup w (run_blocks active (blocks w config) (prelude p g))"
      by blast
    from run_blocks_shape [OF blocks_spec, of active w config "prelude p g"]
    obtain evs where
      evs: "fst (run_blocks active (blocks w config) (prelude p g)) = prelude p g @ evs"
        "prefix (map fst (runs_of evs)) (filter (\<lambda>n. n \<in> set active) pipeline_order)"
        "snd (run_blocks active (blocks w config) (prelude p g)) = None \<longrightarrow>
           map fst (runs_of evs) = filter (\<lambda>n. n \<in> set active) pipeline_order"
        "\<forall>x \<in> set (runs_of evs). built_by w config (fst x) (snd x)"
      unfolding blocks_names by auto
    have d: "dispatched (go w config) = runs_of evs"
      by (simp add: dispatched_def go with_cleanup_fst evs) (simp add: prelude_def)
    have "snd (go w config) = None \<longrightarrow>
            snd (run_blocks active (blocks w config) (prelude p g)) = None"
      using go with_cleanup_None by metis
    with st evs d show ?thesis
      by (auto simp: dispatched_steps_def)
  qed
qed


subsection \<open>The concrete inputs evaluated\<close>

lemmas example_defs = example_config_def example_world_def getitem2_def

lemmas go_defs = go_def lookup_then_def and_then_def environ_set_def active_steps_def
  steps_list_def perform_def blocks_def with_cleanup_def mlflow_run_def
  download_step_def basic_cleaning_step_def data_check_step_def data_split_step_def
  train_random_forest_step_def test_regression_model_step_def

lemma example_steps: "getitem2 (example_config s) ''main'' ''steps'' = Inr (VStr s)"
  by (simp add: example_defs)

lemma example_all_ok: "snd (go example_world (example_config ''all'')) = None"
  by (simp add: example_defs go_defs)

subsection \<open>The environment\<close>

lemma blocks_trace:
  "\<exists>evs. fst (with_cleanup w (run_blocks active (blocks w config) t)) = t @ evs \<and>
         env_writes evs = []"
proof -
  from run_blocks_shape [OF blocks_spec, of active w config t]
  obtain evs where "fst (run_blocks active (blocks w config) t) = t @ evs" "env_writes evs = []"
    by auto
  then have "fst (with_cleanup w (run_blocks active (blocks w config) t)) =
               t @ (evs @ [TmpDirCleanup]) \<and> env_writes (evs @ [TmpDirCleanup]) = []"
    by (simp add: with_cleanup_fst)
  then show ?thesis by blast
qed

lemma blocks_env_writes [simp]:
  "env_writes (fst (with_cleanup w (run_blocks active (blocks w config) t))) = env_writes t"
  using blocks_trace [of w active config t] by auto

lemma blocks_take2 [simp]:
  "take 2 (fst (with_cleanup w (run_blocks active (blocks w config) (x # y # t)))) = [x, y]"
  using blocks_trace [of w active config "x # y # t"] by auto

text \<open>How far an execution got with the two assignments, and that no run comes before them.\<close>

lemma go_env_writes:
  "(env_writes (fst (go w config)) = [] \<and> dispatched (go w config) = []) \<or>
   (\<exists>p. getitem2 config ''main'' ''project_name'' = Inr (VStr p) \<and>
        env_writes (fst (go w config)) = [(''WANDB_PROJECT'', p)] \<and>
        dispatched (go w config) = []) \<or>
   (\<exists>p g. getitem2 config ''main'' ''project_name'' = Inr (VStr p) \<and>
        getitem2 config ''main'' ''experiment_name'' = Inr (VStr g) \<and>
        take 2 (fst (go w config)) = [SetEnv ''WANDB_PROJECT'' p, SetEnv ''WANDB_RUN_GROUP'' g] \<and>
        env_writes (fst (go w config)) = [(''WANDB_PROJECT'', p), (''WANDB_RUN_GROUP'', g)])"
  unfolding go_def and_then_def lookup_then_def environ_set_def perform_def dispatched_def
  by (auto split: sum.splits cval.splits)

lemma go_env_set:
  assumes "getitem2 config ''main'' ''project_name'' = Inr (VStr p)" "CHR 0x00 \<notin> set p"
    and "getitem2 config ''main'' ''experiment_name'' = Inr (VStr g)" "CHR 0x00 \<notin> set g"
  shows "take 2 (fst (go w config)) = [SetEnv ''WANDB_PROJECT'' p, SetEnv ''WANDB_RUN_GROUP'' g] \<and>
         env_writes (fst (go w config)) = [(''WANDB_PROJECT'', p), (''WANDB_RUN_GROUP'', g)]"
  using assms
  unfolding go_def and_then_def lookup_then_def environ_set_def perform_def
  by (auto split: sum.splits cval.splits)

subsection \<open>More of the concrete inputs\<close>

lemma example_project:
  "getitem2 (example_config s) ''main'' ''project_name'' = Inr (VStr ''nyc_airbnb'')"
  by (simp add: example_defs)

lemma example_experiment:
  "getitem2 (example_config s) ''main'' ''experiment_name'' = Inr (VStr ''development'')"
  by (simp add: example_defs)

lemma example_nothing_active:
  "go example_world (example_config ''none'') =
     ([SetEnv ''WANDB_PROJECT'' ''nyc_airbnb'', SetEnv ''WANDB_RUN_GROUP'' ''development'',
       TmpDirCreate, TmpDirCleanup], None)"
  by (simp add: example_defs go_defs)

lemma example_download_dispatched:
  "dispatched_steps (go example_world (example_config ''download'')) = [''download'']"
  by (simp add: example_defs go_defs dispatched_def dispatched_steps_def)

subsection \<open>Which steps are dispatched\<close>

text \<open>
  The blocks consult the active list only through membership of their own six names, and
  the configuration only through reads other than \<open>config["main"]["steps"]\<close>.
\<close>

lemma run_blocks_cong:
  assumes "\<forall>n \<in> set (map fst bs). n \<in> set a \<longleftrightarrow> n \<in> set a'"
  shows "run_blocks a bs t = run_blocks a' bs t"
  using assms
proof (induction bs arbitrary: t)
  case Nil
  then show ?case by simp
next
  case (Cons b bs)
  obtain name body where b: "b = (name, body)" by (cases b)
  from Cons.prems have "\<forall>n \<in> set (map fst bs). n \<in> set a \<longleftrightarrow> n \<in> set a'" by simp
  then have "\<And>t. run_blocks a bs t = run_blocks a' bs t" by (rule Cons.IH)
  then have "run_blocks a bs = run_blocks a' bs" by (rule ext)
  moreover from Cons.prems b have "name \<in> set a \<longleftrightarrow> name \<in> set a'" by simp
  ultimately show ?case using b by simp
qed

lemma blocks_cong:
  assumes "same_except_steps config config'"
  shows "blocks w config = blocks w config'"
proof -
  have r: "\<And>section key. (section, key) \<noteq> (''main'', ''steps'') \<Longrightarrow>
             getitem2 config section key = getitem2 config' section key"
    using assms by (simp add: same_except_steps_def)
  have "download_step w config = download_step w config'"
    by (rule ext) (simp add: download_step_def r)
  moreover have "basic_cleaning_step w config = basic_cleaning_step w config'"
    by (rule ext) (simp add: basic_cleaning_step_def r)
  moreover have "data_check_step w config = data_check_step w config'"
    by (rule ext) (simp add: data_check_step_def r)
  moreover have "data_split_step w config = data_split_step w config'"
    by (rule ext) (simp add: data_split_step_def r)
  moreover have "train_random_forest_step w config = train_random_forest_step w config'"
    by (rule ext) (simp add: train_random_forest_step_def r)
  moreover have "test_regression_model_step w config = test_regression_model_step w config'"
    by (rule ext) (simp add: test_regression_model_step_def r)
  ultimately show ?thesis by (simp add: blocks_def)
qed

lemma go_cong:
  assumes same: "same_except_steps config config'"
    and st: "getitem2 config ''main'' ''steps'' = Inr steps_par"
      "getitem2 config' ''main'' ''steps'' = Inr steps_par'"
    and act: "active_steps steps_par = Inr a" "active_steps steps_par' = Inr a'"
    and eq: "\<forall>n \<in> set pipeline_order. n \<in> set a \<longleftrightarrow> n \<in> set a'"
  shows "go w config = go w config'"
proof -
  have pn: "getitem2 config ''main'' ''project_name'' = getitem2 config' ''main'' ''project_name''"
    and en: "getitem2 config ''main'' ''experiment_name'' =
             getitem2 config' ''main'' ''experiment_name''"
    using same by (simp_all add: same_except_steps_def)
  have "\<forall>n \<in> set (map fst (blocks w config)). n \<in> set a \<longleftrightarrow> n \<in> set a'"
    using eq by (simp only: blocks_names)
  then have "\<And>t. run_blocks a (blocks w config) t = run_blocks a' (blocks w config) t"
    by (rule run_blocks_cong)
  then have "run_blocks a (blocks w config) = run_blocks a' (blocks w config)"
    by (rule ext)
  then have rb: "run_blocks a (blocks w config) = run_blocks a' (blocks w config')"
    using blocks_cong [OF same, of w] by simp
  show ?thesis
    by (simp add: go_def pn en st act lookup_then_def rb)
qed

lemma go_dispatched_active:
  assumes "getitem2 config ''main'' ''steps'' = Inr steps_par"
    and "active_steps steps_par = Inr active"
  shows "prefix (dispatched_steps (go w config)) (filter (\<lambda>n. n \<in> set active) pipeline_order)"
    and "snd (go w config) = None \<Longrightarrow>
         dispatched_steps (go w config) = filter (\<lambda>n. n \<in> set active) pipeline_order"
  using go_dispatched [of w config] assms by (auto simp: dispatched_steps_def)

lemma active_steps_VStr:
  "active_steps (VStr s) = Inr (if s \<noteq> ''all'' then split_comma s else steps_list)"
  by (simp add: active_steps_def)

lemma go_subseq: "subseq (dispatched_steps (go w config)) pipeline_order"
proof -
  from go_dispatched [of w config]
  have "\<exists>active. prefix (dispatched_steps (go w config))
                   (filter (\<lambda>n. n \<in> set active) pipeline_order)"
    by (auto simp: dispatched_steps_def)
  then obtain active where
    "prefix (dispatched_steps (go w config)) (filter (\<lambda>n. n \<in> set active) pipeline_order)"
    by blast
  then have "subseq (dispatched_steps (go w config))
               (filter (\<lambda>n. n \<in> set active) pipeline_order)"
    by (rule prefix_imp_subseq)
  also have "subseq (filter (\<lambda>n. n \<in> set active) pipeline_order) pipeline_order"
    by (rule subseq_filter_left)
  finally show ?thesis .
qed

subsection \<open>Executions on the concrete inputs\<close>

lemma example_pair_ok: "snd (go example_world (example_config ''data_check,download'')) = None"
  by (simp add: example_defs go_defs)

lemma example_pair_steps:
  "dispatched_steps (go example_world (example_config ''data_check,download'')) =
     [''download'', ''data_check'']"
  by (simp add: example_defs go_defs dispatched_def dispatched_steps_def)

lemma example_test_dispatched:
  "dispatched_steps (go example_world (example_config ''test_regression_model'')) =
     [''test_regression_model'']"
  by (simp add: example_defs go_defs dispatched_def dispatched_steps_def)

lemma example_same: "same_except_steps (example_config s) (example_config s')"
  by (simp add: same_except_steps_def example_defs)

lemma example_spaced:
  "snd (go example_world (example_config ''download, basic_cleaning,trian_random_forest'')) = None"
  by (simp add: example_defs go_defs)

subsection \<open>The arguments of a dispatched run\<close>


lemmas call_defs = download_call_def basic_cleaning_call_def data_check_call_def
  data_split_call_def train_random_forest_call_def test_regression_model_call_def



subsection \<open>Where the parameter values come from\<close>














subsection \<open>Executions in a world where calls may raise\<close>

text \<open>
  A raising library call cuts an execution short and changes nothing else: the outcome
  in a world is a cut of the outcome in the same world with no call raising.
\<close>

lemma ideal_simps [simp]:
  "original_cwd (ideal w) = original_cwd w"
  "rf_config_abspath (ideal w) = rf_config_abspath w"
  "py_str (ideal w) = py_str w"
  "raises (ideal w) t ev = False"
  by (simp_all add: ideal_def)


lemma calls_ideal [simp]:
  "download_call (ideal w) = download_call w"
  "basic_cleaning_call (ideal w) = basic_cleaning_call w"
  "data_check_call (ideal w) = data_check_call w"
  "data_split_call (ideal w) = data_split_call w"
  "train_random_forest_call (ideal w) = train_random_forest_call w"
  "test_regression_model_call (ideal w) = test_regression_model_call w"
  by (auto simp: call_defs fmt_def fun_eq_iff split: cval.splits)




















subsection \<open>Further executions on the concrete inputs\<close>





section \<open>The claims\<close>

subsection \<open>C1: the runs dispatched for \<open>steps = "all"\<close>\<close>

text \<open>
  C1, as stated: with \<open>config["main"]["steps"]\<close> equal to \<open>"all"\<close>, the driver
  dispatches six runs, one for each of the six steps. This fails on a complete
  configuration in a world where nothing raises: five runs are dispatched, and
  \<open>test_regression_model\<close> is not among them.
\<close>

theorem all_is_not_six_runs:
  "dispatched_steps (go example_world (example_config ''all'')) =
     [''download'', ''basic_cleaning'', ''data_check'', ''data_split'', ''train_random_forest'']
   \<and> length (dispatched (go example_world (example_config ''all''))) \<noteq> 6"
  by (simp add: dispatched_steps_def dispatched_def example_defs go_defs)

text \<open>
  C1, amended: with \<open>config["main"]["steps"]\<close> equal to \<open>"all"\<close>, an execution of
  \<open>go\<close> that ends without an exception dispatches exactly five runs, one for each name
  in \<open>_steps\<close> and in that order: download, basic_cleaning, data_check, data_split,
  train_random_forest.
\<close>

theorem all_dispatches_steps_list:
  assumes "getitem2 config ''main'' ''steps'' = Inr (VStr ''all'')"
    and "snd (go w config) = None"
  shows "dispatched_steps (go w config) =
           [''download'', ''basic_cleaning'', ''data_check'', ''data_split'',
            ''train_random_forest''] \<and>
         length (dispatched (go w config)) = 5"
proof -
  from go_dispatched [of w config] assms
  have "dispatched_steps (go w config) = filter (\<lambda>n. n \<in> set steps_list) pipeline_order"
    by (auto simp: active_steps_def)
  then have *: "dispatched_steps (go w config) =
           [''download'', ''basic_cleaning'', ''data_check'', ''data_split'',
            ''train_random_forest'']"
    by (simp add: steps_list_def pipeline_order_def)
  have "length (dispatched (go w config)) = length (dispatched_steps (go w config))"
    by (simp add: dispatched_steps_def)
  with * show ?thesis by simp
qed

theorem all_dispatches_steps_list_witness:
  "getitem2 (example_config ''all'') ''main'' ''steps'' = Inr (VStr ''all'') \<and>
   snd (go example_world (example_config ''all'')) = None \<and>
   dispatched_steps (go example_world (example_config ''all'')) =
     [''download'', ''basic_cleaning'', ''data_check'', ''data_split'', ''train_random_forest''] \<and>
   length (dispatched (go example_world (example_config ''all''))) = 5"
  using all_dispatches_steps_list [OF example_steps example_all_ok] example_steps example_all_ok
  by simp

subsection \<open>C2: the order of the dispatches\<close>

text \<open>
  C2: whatever the configuration and its \<open>steps\<close> string, the steps whose runs \<open>go\<close>
  dispatches form a subsequence of download, basic_cleaning, data_check, data_split,
  train_random_forest, test_regression_model: they are dispatched in this fixed order.
  The order of the names in the comma-separated string has no effect: two
  configurations that differ only in their \<open>steps\<close> strings (neither being \<open>"all"\<close>),
  whose strings split into the same set of names, give the same execution.
\<close>

theorem fixed_dispatch_order:
  "subseq (dispatched_steps (go w config)) pipeline_order \<and>
   (same_except_steps config config' \<and>
    getitem2 config ''main'' ''steps'' = Inr (VStr s) \<and>
    getitem2 config' ''main'' ''steps'' = Inr (VStr s') \<and>
    s \<noteq> ''all'' \<and> s' \<noteq> ''all'' \<and> set (split_comma s) = set (split_comma s') \<longrightarrow>
      go w config = go w config')"
proof (intro conjI impI)
  show "subseq (dispatched_steps (go w config)) pipeline_order"
    by (rule go_subseq)
next
  assume h: "same_except_steps config config' \<and>
    getitem2 config ''main'' ''steps'' = Inr (VStr s) \<and>
    getitem2 config' ''main'' ''steps'' = Inr (VStr s') \<and>
    s \<noteq> ''all'' \<and> s' \<noteq> ''all'' \<and> set (split_comma s) = set (split_comma s')"
  then have a: "active_steps (VStr s) = Inr (split_comma s)"
    "active_steps (VStr s') = Inr (split_comma s')"
    by (simp_all add: active_steps_VStr)
  from h have "\<forall>n \<in> set pipeline_order. n \<in> set (split_comma s) \<longleftrightarrow> n \<in> set (split_comma s')"
    by simp
  with h a show "go w config = go w config'"
    using go_cong [of config config' "VStr s" "VStr s'" "split_comma s" "split_comma s'" w]
    by blast
qed

text \<open>A witness: \<open>"data_check,download"\<close> and \<open>"download,data_check"\<close>.\<close>

theorem fixed_dispatch_order_witness:
  "same_except_steps (example_config ''data_check,download'') (example_config ''download,data_check'') \<and>
   getitem2 (example_config ''data_check,download'') ''main'' ''steps'' =
     Inr (VStr ''data_check,download'') \<and>
   getitem2 (example_config ''download,data_check'') ''main'' ''steps'' =
     Inr (VStr ''download,data_check'') \<and>
   ''data_check,download'' \<noteq> ''all'' \<and> ''download,data_check'' \<noteq> ''all'' \<and>
   set (split_comma ''data_check,download'') = set (split_comma ''download,data_check'') \<and>
   go example_world (example_config ''data_check,download'') =
     go example_world (example_config ''download,data_check'') \<and>
   dispatched_steps (go example_world (example_config ''data_check,download'')) =
     [''download'', ''data_check''] \<and>
   subseq [''download'', ''data_check''] pipeline_order"
proof -
  have sp: "set (split_comma ''data_check,download'') = set (split_comma ''download,data_check'')"
    by auto
  from fixed_dispatch_order [of example_world "example_config ''data_check,download''"
      "example_config ''download,data_check''" "''data_check,download''" "''download,data_check''"]
    example_same example_steps sp example_pair_steps
  show ?thesis by simp
qed

subsection \<open>C3: a step is dispatched if and only if it is active\<close>

text \<open>
  C3, as stated: for a \<open>steps\<close> string \<open>s\<close> other than \<open>"all"\<close>, a step's run is
  dispatched if and only if its name is an element of \<open>s\<close> split on commas. This fails
  where a call of \<open>mlflow.run\<close> raises: with \<open>steps = "download,basic_cleaning"\<close> and
  the download run raising, the exception ends \<open>go\<close>, and basic_cleaning, an element of
  the split, gets no run.
\<close>

theorem active_step_not_dispatched:
  "getitem2 (example_config ''download,basic_cleaning'') ''main'' ''steps'' =
     Inr (VStr ''download,basic_cleaning'') \<and>
   ''download,basic_cleaning'' \<noteq> ''all'' \<and>
   ''basic_cleaning'' \<in> set (split_comma ''download,basic_cleaning'') \<and>
   dispatched_steps (go example_world_failing (example_config ''download,basic_cleaning'')) =
     [''download''] \<and>
   ''basic_cleaning'' \<notin>
     set (dispatched_steps (go example_world_failing (example_config ''download,basic_cleaning''))) \<and>
   snd (go example_world_failing (example_config ''download,basic_cleaning'')) =
     Some ExternalError"
  by (simp add: dispatched_steps_def dispatched_def example_config_def getitem2_def
      example_world_failing_def go_defs)

text \<open>
  C3, amended: let \<open>s\<close> be the \<open>steps\<close> string and \<open>name\<close> one of the six step names.
  If the run of \<open>name\<close> is dispatched, then \<open>name\<close> is an element of \<open>s\<close> split on
  commas when \<open>s\<close> is not \<open>"all"\<close>, and an element of \<open>_steps\<close> when it is. In an
  execution that ends without an exception the converse holds too: the run is
  dispatched if and only if the name is such an element.
\<close>

theorem dispatched_iff_active:
  assumes "getitem2 config ''main'' ''steps'' = Inr (VStr s)"
    and "name \<in> set pipeline_order"
  shows "(name \<in> set (dispatched_steps (go w config)) \<longrightarrow>
            name \<in> set (if s \<noteq> ''all'' then split_comma s else steps_list)) \<and>
         (snd (go w config) = None \<longrightarrow>
            (name \<in> set (dispatched_steps (go w config)) \<longleftrightarrow>
             name \<in> set (if s \<noteq> ''all'' then split_comma s else steps_list)))"
proof -
  define active where "active = (if s \<noteq> ''all'' then split_comma s else steps_list)"
  have a: "active_steps (VStr s) = Inr active"
    unfolding active_def by (rule active_steps_VStr)
  have "prefix (dispatched_steps (go w config)) (filter (\<lambda>n. n \<in> set active) pipeline_order)"
    using assms(1) a by (rule go_dispatched_active)
  then have "set (dispatched_steps (go w config)) \<subseteq>
               set (filter (\<lambda>n. n \<in> set active) pipeline_order)"
    by (rule set_mono_prefix)
  then have 1: "name \<in> set (dispatched_steps (go w config)) \<longrightarrow> name \<in> set active"
    by auto
  have "snd (go w config) = None \<longrightarrow>
          dispatched_steps (go w config) = filter (\<lambda>n. n \<in> set active) pipeline_order"
    using go_dispatched_active(2) [OF assms(1) a] by blast
  with assms(2) have 2: "snd (go w config) = None \<longrightarrow>
          (name \<in> set (dispatched_steps (go w config)) \<longleftrightarrow> name \<in> set active)"
    by auto
  from 1 2 show ?thesis unfolding active_def by blast
qed

text \<open>A witness: of \<open>"data_check,download"\<close>, download is dispatched and data_split is not.\<close>

theorem dispatched_iff_active_witness:
  "getitem2 (example_config ''data_check,download'') ''main'' ''steps'' =
     Inr (VStr ''data_check,download'') \<and>
   ''download'' \<in> set pipeline_order \<and> ''data_split'' \<in> set pipeline_order \<and>
   snd (go example_world (example_config ''data_check,download'')) = None \<and>
   ''download'' \<in> set (split_comma ''data_check,download'') \<and>
   ''download'' \<in> set (dispatched_steps (go example_world (example_config ''data_check,download''))) \<and>
   ''data_split'' \<notin> set (split_comma ''data_check,download'') \<and>
   ''data_split'' \<notin> set (dispatched_steps (go example_world (example_config ''data_check,download'')))"
proof -
  have 1: "''download'' \<in> set pipeline_order" and 2: "''data_split'' \<in> set pipeline_order"
    by (simp_all add: pipeline_order_def)
  have 3: "''download'' \<in> set (split_comma ''data_check,download'')"
    and 4: "''data_split'' \<notin> set (split_comma ''data_check,download'')"
    by simp_all
  from dispatched_iff_active [of "example_config ''data_check,download''"
      "''data_check,download''" "''download''" example_world]
    dispatched_iff_active [of "example_config ''data_check,download''"
      "''data_check,download''" "''data_split''" example_world]
    example_pair_ok example_steps 1 2 3 4
  show ?thesis by simp
qed

subsection \<open>C4: the artifact names\<close>



subsection \<open>C5: the targets of the runs\<close>




subsection \<open>C6: the same configuration, the same dispatches\<close>




subsection \<open>C7: the values in the parameter dictionaries\<close>




subsection \<open>C8: names that are not step names\<close>

text \<open>
  C8: for a \<open>steps\<close> string \<open>s\<close> other than \<open>"all"\<close> the active list is \<open>s\<close> split on
  commas, as it is, with nothing trimmed or checked. Only names that are both in this list
  and among the six step names get a run. Every other element of the list is ignored
  without an error: an execution is the same, in its effects and in how it ends, as that
  for any other \<open>steps\<close> string with the same step names among its elements.
\<close>

theorem unrecognized_names_ignored:
  assumes "getitem2 config ''main'' ''steps'' = Inr (VStr s)" and "s \<noteq> ''all''"
  shows "active_steps (VStr s) = Inr (split_comma s) \<and>
         set (dispatched_steps (go w config)) \<subseteq> set (split_comma s) \<inter> set pipeline_order \<and>
         (same_except_steps config config' \<and>
          getitem2 config' ''main'' ''steps'' = Inr (VStr s') \<and> s' \<noteq> ''all'' \<and>
          set (split_comma s') \<inter> set pipeline_order = set (split_comma s) \<inter> set pipeline_order
          \<longrightarrow> go w config = go w config')"
proof (intro conjI impI)
  show a: "active_steps (VStr s) = Inr (split_comma s)"
    using assms(2) by (simp add: active_steps_VStr)
  have "prefix (dispatched_steps (go w config))
          (filter (\<lambda>n. n \<in> set (split_comma s)) pipeline_order)"
    using assms(1) a by (rule go_dispatched_active)
  then have "set (dispatched_steps (go w config)) \<subseteq>
               set (filter (\<lambda>n. n \<in> set (split_comma s)) pipeline_order)"
    by (rule set_mono_prefix)
  then show "set (dispatched_steps (go w config)) \<subseteq> set (split_comma s) \<inter> set pipeline_order"
    by auto
  assume h: "same_except_steps config config' \<and>
          getitem2 config' ''main'' ''steps'' = Inr (VStr s') \<and> s' \<noteq> ''all'' \<and>
          set (split_comma s') \<inter> set pipeline_order = set (split_comma s) \<inter> set pipeline_order"
  then have a': "active_steps (VStr s') = Inr (split_comma s')"
    by (simp add: active_steps_VStr)
  from h have "\<forall>n \<in> set pipeline_order. n \<in> set (split_comma s) \<longleftrightarrow> n \<in> set (split_comma s')"
    by blast
  with h a a' assms(1) show "go w config = go w config'"
    using go_cong [of config config' "VStr s" "VStr s'" "split_comma s" "split_comma s'" w]
    by blast
qed

text \<open>
  A witness: \<open>"download, basic_cleaning,trian_random_forest"\<close>, where the second name
  carries a space and the third is misspelt, runs as \<open>"download"\<close> does and ends
  without an exception.
\<close>

theorem unrecognized_names_ignored_witness:
  "getitem2 (example_config ''download, basic_cleaning,trian_random_forest'') ''main'' ''steps'' =
     Inr (VStr ''download, basic_cleaning,trian_random_forest'') \<and>
   ''download, basic_cleaning,trian_random_forest'' \<noteq> ''all'' \<and>
   split_comma ''download, basic_cleaning,trian_random_forest'' =
     [''download'', '' basic_cleaning'', ''trian_random_forest''] \<and>
   same_except_steps (example_config ''download, basic_cleaning,trian_random_forest'')
     (example_config ''download'') \<and>
   getitem2 (example_config ''download'') ''main'' ''steps'' = Inr (VStr ''download'') \<and>
   ''download'' \<noteq> ''all'' \<and>
   set (split_comma ''download'') \<inter> set pipeline_order =
     set (split_comma ''download, basic_cleaning,trian_random_forest'') \<inter> set pipeline_order \<and>
   go example_world (example_config ''download, basic_cleaning,trian_random_forest'') =
     go example_world (example_config ''download'') \<and>
   snd (go example_world (example_config ''download, basic_cleaning,trian_random_forest'')) = None"
proof -
  have sp: "split_comma ''download, basic_cleaning,trian_random_forest'' =
     [''download'', '' basic_cleaning'', ''trian_random_forest'']"
    by simp
  have i: "set (split_comma ''download'') \<inter> set pipeline_order =
     set (split_comma ''download, basic_cleaning,trian_random_forest'') \<inter> set pipeline_order"
    by (auto simp: pipeline_order_def)
  have ne: "''download, basic_cleaning,trian_random_forest'' \<noteq> ''all''" "''download'' \<noteq> ''all''"
    by simp_all
  have "go example_world (example_config ''download, basic_cleaning,trian_random_forest'') =
     go example_world (example_config ''download'')"
    using unrecognized_names_ignored [OF example_steps ne(1), of example_world
        "example_config ''download''" "''download''"]
      example_same example_steps ne(2) i
    by blast
  then show ?thesis
    by (intro conjI example_steps ne sp example_same i example_spaced)
qed

subsection \<open>C9: the step \<open>test_regression_model\<close>\<close>

text \<open>
  C9: with \<open>steps\<close> equal to \<open>"all"\<close> the run of test_regression_model is never
  dispatched; and whenever it is dispatched, the \<open>steps\<close> value is a string other than
  \<open>"all"\<close> that has \<open>"test_regression_model"\<close> among its comma-separated elements.
\<close>

theorem test_step_only_explicit:
  "(getitem2 config ''main'' ''steps'' = Inr (VStr ''all'') \<longrightarrow>
      ''test_regression_model'' \<notin> set (dispatched_steps (go w config))) \<and>
   (''test_regression_model'' \<in> set (dispatched_steps (go w config)) \<longrightarrow>
      (\<exists>s. getitem2 config ''main'' ''steps'' = Inr (VStr s) \<and> s \<noteq> ''all'' \<and>
           ''test_regression_model'' \<in> set (split_comma s)))"
proof -
  have *: "''test_regression_model'' \<in> set active"
    if "getitem2 config ''main'' ''steps'' = Inr steps_par" "active_steps steps_par = Inr active"
      "''test_regression_model'' \<in> set (dispatched_steps (go w config))"
    for steps_par active
  proof -
    from that(1,2)
    have "prefix (dispatched_steps (go w config)) (filter (\<lambda>n. n \<in> set active) pipeline_order)"
      by (rule go_dispatched_active)
    then have "set (dispatched_steps (go w config)) \<subseteq>
                 set (filter (\<lambda>n. n \<in> set active) pipeline_order)"
      by (rule set_mono_prefix)
    with that(3) show ?thesis by auto
  qed
  have "''test_regression_model'' \<notin> set (dispatched_steps (go w config))"
    if "getitem2 config ''main'' ''steps'' = Inr (VStr ''all'')"
    using * [OF that, of steps_list] by (auto simp: active_steps_def steps_list_def)
  moreover have "\<exists>s. getitem2 config ''main'' ''steps'' = Inr (VStr s) \<and> s \<noteq> ''all'' \<and>
           ''test_regression_model'' \<in> set (split_comma s)"
    if d: "''test_regression_model'' \<in> set (dispatched_steps (go w config))"
  proof -
    from d have "dispatched (go w config) \<noteq> []" by (auto simp: dispatched_steps_def)
    with go_dispatched [of w config] obtain steps_par active where
      st: "getitem2 config ''main'' ''steps'' = Inr steps_par" "active_steps steps_par = Inr active"
      by auto
    from * [OF st d] have m: "''test_regression_model'' \<in> set active" .
    from st(2) m show ?thesis using st(1)
      by (cases steps_par) (auto simp: active_steps_def steps_list_def split: if_splits)
  qed
  ultimately show ?thesis by blast
qed

text \<open>A witness: \<open>"all"\<close> against \<open>"test_regression_model"\<close>.\<close>

theorem test_step_only_explicit_witness:
  "getitem2 (example_config ''all'') ''main'' ''steps'' = Inr (VStr ''all'') \<and>
   ''test_regression_model'' \<notin> set (dispatched_steps (go example_world (example_config ''all''))) \<and>
   ''test_regression_model'' \<in>
      set (dispatched_steps (go example_world (example_config ''test_regression_model''))) \<and>
   (\<exists>s. getitem2 (example_config ''test_regression_model'') ''main'' ''steps'' = Inr (VStr s) \<and>
        s \<noteq> ''all'' \<and> ''test_regression_model'' \<in> set (split_comma s))"
  using test_step_only_explicit [of "example_config ''all''" example_world]
    test_step_only_explicit [of "example_config ''test_regression_model''" example_world]
    example_steps [of "''all''"] example_test_dispatched
  by simp

subsection \<open>C10: the two environment variables\<close>

text \<open>
  C10, as stated: on every execution of \<open>go\<close> the variables \<open>WANDB_PROJECT\<close> and
  \<open>WANDB_RUN_GROUP\<close> are set to the two configured values. This fails where
  \<open>config["main"]["project_name"]\<close> is not a string: the first assignment raises
  \<open>TypeError\<close>, and the execution ends with neither variable set.
\<close>

theorem numeric_project_sets_nothing:
  "getitem2 numeric_project_config ''main'' ''project_name'' = Inr (VOther 2024) \<and>
   go example_world numeric_project_config = ([], Some TypeError) \<and>
   env_writes (fst (go example_world numeric_project_config)) = []"
  by (simp add: numeric_project_config_def getitem2_def example_world_def go_defs)

text \<open>
  C10, amended: on every execution of \<open>go\<close> the only environment variables assigned are
  \<open>WANDB_PROJECT\<close> and \<open>WANDB_RUN_GROUP\<close>. When \<open>config["main"]["project_name"]\<close>
  and \<open>config["main"]["experiment_name"]\<close> are strings that \<open>os.environ\<close> accepts, the
  two assignments, to these values, are the first two effects of the execution and the
  only assignments to the environment, whatever the \<open>steps\<close> value is and whichever
  steps are active. And whenever a run is dispatched at all, the first two effects are
  these assignments, so they come before every run.
\<close>

theorem env_frame:
  "set (map fst (env_writes (fst (go w config)))) \<subseteq> {''WANDB_PROJECT'', ''WANDB_RUN_GROUP''} \<and>
   (getitem2 config ''main'' ''project_name'' = Inr (VStr p) \<and> CHR 0x00 \<notin> set p \<and>
    getitem2 config ''main'' ''experiment_name'' = Inr (VStr g) \<and> CHR 0x00 \<notin> set g \<longrightarrow>
      take 2 (fst (go w config)) = [SetEnv ''WANDB_PROJECT'' p, SetEnv ''WANDB_RUN_GROUP'' g] \<and>
      env_writes (fst (go w config)) = [(''WANDB_PROJECT'', p), (''WANDB_RUN_GROUP'', g)]) \<and>
   (dispatched (go w config) \<noteq> [] \<longrightarrow>
      (\<exists>p g. getitem2 config ''main'' ''project_name'' = Inr (VStr p) \<and>
             getitem2 config ''main'' ''experiment_name'' = Inr (VStr g) \<and>
             take 2 (fst (go w config)) =
               [SetEnv ''WANDB_PROJECT'' p, SetEnv ''WANDB_RUN_GROUP'' g]))"
proof (intro conjI impI)
  show "set (map fst (env_writes (fst (go w config)))) \<subseteq> {''WANDB_PROJECT'', ''WANDB_RUN_GROUP''}"
    using go_env_writes [of w config] by auto
next
  assume h: "getitem2 config ''main'' ''project_name'' = Inr (VStr p) \<and> CHR 0x00 \<notin> set p \<and>
    getitem2 config ''main'' ''experiment_name'' = Inr (VStr g) \<and> CHR 0x00 \<notin> set g"
  then show "take 2 (fst (go w config)) = [SetEnv ''WANDB_PROJECT'' p, SetEnv ''WANDB_RUN_GROUP'' g]"
    using go_env_set [of config p g w] by simp
  from h show "env_writes (fst (go w config)) = [(''WANDB_PROJECT'', p), (''WANDB_RUN_GROUP'', g)]"
    using go_env_set [of config p g w] by simp
next
  assume "dispatched (go w config) \<noteq> []"
  then show "\<exists>p g. getitem2 config ''main'' ''project_name'' = Inr (VStr p) \<and>
             getitem2 config ''main'' ''experiment_name'' = Inr (VStr g) \<and>
             take 2 (fst (go w config)) =
               [SetEnv ''WANDB_PROJECT'' p, SetEnv ''WANDB_RUN_GROUP'' g]"
    using go_env_writes [of w config] by auto
qed

text \<open>
  A witness: with \<open>steps = "none"\<close> no step is active and both variables are set; with
  \<open>steps = "download"\<close> a run is dispatched, after the two assignments.
\<close>

theorem env_frame_witness:
  "getitem2 (example_config ''none'') ''main'' ''project_name'' = Inr (VStr ''nyc_airbnb'') \<and>
   CHR 0x00 \<notin> set ''nyc_airbnb'' \<and>
   getitem2 (example_config ''none'') ''main'' ''experiment_name'' = Inr (VStr ''development'') \<and>
   CHR 0x00 \<notin> set ''development'' \<and>
   dispatched (go example_world (example_config ''none'')) = [] \<and>
   env_writes (fst (go example_world (example_config ''none''))) =
     [(''WANDB_PROJECT'', ''nyc_airbnb''), (''WANDB_RUN_GROUP'', ''development'')] \<and>
   dispatched (go example_world (example_config ''download'')) \<noteq> [] \<and>
   take 2 (fst (go example_world (example_config ''download''))) =
     [SetEnv ''WANDB_PROJECT'' ''nyc_airbnb'', SetEnv ''WANDB_RUN_GROUP'' ''development'']"
proof -
  have nul: "CHR 0x00 \<notin> set ''nyc_airbnb''" "CHR 0x00 \<notin> set ''development''"
    by simp_all
  have d: "dispatched (go example_world (example_config ''download'')) \<noteq> []"
    using example_download_dispatched by (auto simp: dispatched_steps_def)
  have n: "dispatched (go example_world (example_config ''none'')) = []"
    by (simp add: example_nothing_active dispatched_def)
  from env_frame [of example_world "example_config ''none''" "''nyc_airbnb''" "''development''"]
    env_frame [of example_world "example_config ''download''" "''nyc_airbnb''" "''development''"]
    example_project example_experiment nul d n
  show ?thesis by simp
qed

end
